theory Spec2Isabelle
  imports Main "HOL-Library.Word"
begin

unbundle bit_operations_syntax

section \<open>Clock resolver of the CS4245 / CS4265 codec drivers\<close>

text \<open>
  The two drivers (\<^verbatim>\<open>cs4245.c\<close> and \<^verbatim>\<open>cs4265.c\<close>) carry the same clock table and the
  same two functions over it, character for character up to the chip name in the
  identifiers. The definitions below keep the names of \<^verbatim>\<open>cs4245.c\<close> and stand for both.

  \<^verbatim>\<open>u32\<close> and \<^verbatim>\<open>unsigned int\<close> are 32-bit words, \<^verbatim>\<open>u8\<close> an 8-bit word. The lookup
  takes its two arguments as \<^verbatim>\<open>int\<close> and compares each with a \<^verbatim>\<open>u32\<close> field, which
  converts the argument to \<^verbatim>\<open>u32\<close>: the comparison is one of 32-bit patterns, so the
  arguments are 32-bit words here.
\<close>

type_synonym u8 = "8 word"
type_synonym u32 = "32 word"

datatype errno = EINVAL | ENOMEM

text \<open>Result of a function that returns 0 or a negative error number.\<close>

type_synonym status = "errno + unit"

abbreviation OK :: status where
  "OK \<equiv> Inr ()"

record cs4245_clk_para =
  mclk :: u32
  rate :: u32
  fm_mode :: u8
  mclkdiv :: u8

definition clk_para :: "u32 \<Rightarrow> u32 \<Rightarrow> u8 \<Rightarrow> u8 \<Rightarrow> cs4245_clk_para" where
  "clk_para m r f d = \<lparr>mclk = m, rate = r, fm_mode = f, mclkdiv = d\<rparr>"

definition clk_map_table :: "cs4245_clk_para list" where
  "clk_map_table = [
     \<comment> \<open>32k\<close>
     clk_para 8192000 32000 0 0,
     clk_para 12288000 32000 0 1,
     clk_para 16384000 32000 0 2,
     clk_para 24576000 32000 0 3,
     clk_para 32768000 32000 0 4,
     \<comment> \<open>44.1k\<close>
     clk_para 11289600 44100 0 0,
     clk_para 16934400 44100 0 1,
     clk_para 22579200 44100 0 2,
     clk_para 33868000 44100 0 3,
     clk_para 45158400 44100 0 4,
     \<comment> \<open>48k\<close>
     clk_para 12288000 48000 0 0,
     clk_para 18432000 48000 0 1,
     clk_para 24576000 48000 0 2,
     clk_para 36864000 48000 0 3,
     clk_para 49152000 48000 0 4,
     \<comment> \<open>64k\<close>
     clk_para 8192000 64000 1 0,
     clk_para 12288000 64000 1 1,
     clk_para 16934400 64000 1 2,
     clk_para 24576000 64000 1 3,
     clk_para 32768000 64000 1 4,
     \<comment> \<open>88.2k\<close>
     clk_para 11289600 88200 1 0,
     clk_para 16934400 88200 1 1,
     clk_para 22579200 88200 1 2,
     clk_para 33868000 88200 1 3,
     clk_para 45158400 88200 1 4,
     \<comment> \<open>96k\<close>
     clk_para 12288000 96000 1 0,
     clk_para 18432000 96000 1 1,
     clk_para 24576000 96000 1 2,
     clk_para 36864000 96000 1 3,
     clk_para 49152000 96000 1 4,
     \<comment> \<open>128k\<close>
     clk_para 8192000 128000 2 0,
     clk_para 12288000 128000 2 1,
     clk_para 16934400 128000 2 2,
     clk_para 24576000 128000 2 3,
     clk_para 32768000 128000 2 4,
     \<comment> \<open>176.4k\<close>
     clk_para 11289600 176400 2 0,
     clk_para 16934400 176400 2 1,
     clk_para 22579200 176400 2 2,
     clk_para 33868000 176400 2 3,
     clk_para 49152000 176400 2 4,
     \<comment> \<open>192k\<close>
     clk_para 12288000 192000 2 0,
     clk_para 18432000 192000 2 1,
     clk_para 24576000 192000 2 2,
     clk_para 36864000 192000 2 3,
     clk_para 49152000 192000 2 4]"

text \<open>
  The \<^verbatim>\<open>for\<close> loop of \<^verbatim>\<open>cs4245_get_clk_index\<close>, from index \<open>i\<close> on: the first row whose
  rate and master clock both match is returned, and \<^verbatim>\<open>-EINVAL\<close> once \<open>i\<close> reaches
  \<^verbatim>\<open>ARRAY_SIZE(clk_map_table)\<close>.
\<close>

function get_clk_index_loop :: "nat \<Rightarrow> u32 \<Rightarrow> u32 \<Rightarrow> errno + nat" where
  "get_clk_index_loop i m r =
     (if i < length clk_map_table then
        (if rate (clk_map_table ! i) = r \<and> mclk (clk_map_table ! i) = m then Inr i
         else get_clk_index_loop (i + 1) m r)
      else Inl EINVAL)"
  by pat_completeness auto
termination
  by (relation "measure (\<lambda>(i, m, r). length clk_map_table - i)") auto

declare get_clk_index_loop.simps [simp del]

definition cs4245_get_clk_index :: "u32 \<Rightarrow> u32 \<Rightarrow> errno + nat" where
  "cs4245_get_clk_index m r = get_clk_index_loop 0 m r"

subsection \<open>Setting the system clock\<close>

text \<open>
  \<^verbatim>\<open>struct cs4245_private\<close>: the stored interface format and system clock. Its two
  pointer fields (the register map and the reset line) play no part in the functions
  below and are left out.
\<close>

record cs4245_private =
  format :: u8
  sysclk :: u32

text \<open>
  The \<^verbatim>\<open>for\<close> loop of \<^verbatim>\<open>cs4245_set_sysclk\<close>, from index \<open>i\<close> on: the first row whose
  master clock equals \<open>freq\<close> stores \<open>freq\<close> and returns 0; when no row is left the
  stored clock is set to 0 and \<^verbatim>\<open>-EINVAL\<close> is returned.
\<close>

function set_sysclk_loop :: "nat \<Rightarrow> u32 \<Rightarrow> cs4245_private \<Rightarrow> status \<times> cs4245_private" where
  "set_sysclk_loop i freq p =
     (if i < length clk_map_table then
        (if mclk (clk_map_table ! i) = freq then (OK, p\<lparr>sysclk := freq\<rparr>)
         else set_sysclk_loop (i + 1) freq p)
      else (Inl EINVAL, p\<lparr>sysclk := 0\<rparr>))"
  by pat_completeness auto
termination
  by (relation "measure (\<lambda>(i, freq, p). length clk_map_table - i)") auto

declare set_sysclk_loop.simps [simp del]

text \<open>
  \<^verbatim>\<open>cs4245_set_sysclk(codec_dai, clk_id, freq, dir)\<close>. The result is the return code
  together with the private data after the call.
\<close>

definition cs4245_set_sysclk ::
  "int \<Rightarrow> u32 \<Rightarrow> int \<Rightarrow> cs4245_private \<Rightarrow> status \<times> cs4245_private" where
  "cs4245_set_sysclk clk_id freq dir p =
     (if freq = 0 then (OK, p)
      else if clk_id \<noteq> 0 then (Inl EINVAL, p)
      else set_sysclk_loop 0 freq p)"

section \<open>Board-level controls of the MOD Duo and Duo X\<close>

text \<open>
  \<^verbatim>\<open>cs4245.c\<close> (MOD Duo) and \<^verbatim>\<open>cs4265.c\<close> (MOD Duo X, built with
  \<^verbatim>\<open>_MOD_DEVICE_DUOX\<close>) both keep the control values in file-scope variables and
  the pin handles in one allocated struct. \<^verbatim>\<open>set_headphone_volume\<close>,
  \<^verbatim>\<open>set_gain_stage\<close> and \<^verbatim>\<open>set_true_bypass\<close> are the same text in both files up to the
  name of that struct; the mode setters, the interrupt handler and \<^verbatim>\<open>moddevices_init\<close>
  exist in \<^verbatim>\<open>cs4265.c\<close> only. The state below is that of \<^verbatim>\<open>cs4265.c\<close>, of which the
  state of \<^verbatim>\<open>cs4245.c\<close> is a part.
\<close>

subsection \<open>Machine integers\<close>

text \<open>
  A C \<^verbatim>\<open>int\<close> is an \<^typ>\<open>int\<close> here. Where the source computes on two of them, the
  result is wrapped to 32 bits, two's complement, as the kernel's build
  (\<^verbatim>\<open>-fno-strict-overflow\<close>) makes signed arithmetic do.
\<close>

definition s32 :: "int \<Rightarrow> int" where
  "s32 x = (x + 2 ^ 31) mod 2 ^ 32 - 2 ^ 31"

text \<open>The kernel's \<^verbatim>\<open>abs()\<close> on an \<^verbatim>\<open>int\<close>: \<^verbatim>\<open>x < 0 ? -x : x\<close>.\<close>

definition c_abs :: "int \<Rightarrow> int" where
  "c_abs x = (if x < 0 then s32 (- x) else x)"

text \<open>A C \<^verbatim>\<open>bool\<close> read as an integer.\<close>

definition int_of_bool :: "bool \<Rightarrow> int" where
  "int_of_bool b = (if b then 1 else 0)"

subsection \<open>Pins and state\<close>

text \<open>The pin handles of \<^verbatim>\<open>struct _modduox_gpios\<close>, one constructor per field.\<close>

datatype gpio =
    Headphone_cv_mode
  | Headphone_clk
  | Headphone_dir
  | Gain_stage_left1
  | Gain_stage_left2
  | Gain_stage_right1
  | Gain_stage_right2
  | True_bypass_left
  | True_bypass_right
  | Exp_enable1
  | Exp_enable2
  | Exp_flag1
  | Exp_flag2

definition CHANNEL_LEFT :: int where "CHANNEL_LEFT = 0"
definition CHANNEL_RIGHT :: int where "CHANNEL_RIGHT = 1"

definition GPIO_BYPASS :: int where "GPIO_BYPASS = 0"
definition GPIO_PROCESS :: int where "GPIO_PROCESS = 1"

text \<open>Tip means enable2, ring enable1.\<close>

definition EXP_PEDAL_SIGNAL_ON_TIP :: bool where "EXP_PEDAL_SIGNAL_ON_TIP = False"
definition EXP_PEDAL_SIGNAL_ON_RING :: bool where "EXP_PEDAL_SIGNAL_ON_RING = True"

text \<open>
  The file-scope variables (\<open>headphone_volume\<close> to \<open>exp_pedal_mode\<close>), the non-pointer
  fields of \<^verbatim>\<open>struct _modduox_gpios\<close> (\<open>irqFlag1\<close>, \<open>irqFlag2\<close>, \<open>initialized\<close>), and what
  the driver has done to the world outside it: \<open>gpio_writes\<close> lists, oldest first, every
  call of \<^verbatim>\<open>gpiod_set_value\<close> as the pin and the value passed, and \<open>irq_actions\<close> lists the
  interrupt lines on which \<^verbatim>\<open>request_irq\<close> has installed \<^verbatim>\<open>exp_flag_irq_handler\<close>.
\<close>

record modduox =
  headphone_volume :: int
  input_left_gain_stage :: int
  input_right_gain_stage :: int
  left_true_bypass :: bool
  right_true_bypass :: bool
  headphone_cv_mode :: bool
  cv_exp_pedal_mode :: bool
  exp_pedal_mode :: bool
  irqFlag1 :: int
  irqFlag2 :: int
  initialized :: bool
  gpio_writes :: "(gpio \<times> int) list"
  irq_actions :: "int list"

text \<open>
  Modelled from the spec: \<^verbatim>\<open>gpiod_set_value\<close> is the kernel's GPIO consumer call, the
  spec's Digital Pin collaborator ("a single output or input line with two boolean
  levels"); its code is not part of the driver. A call is one pin write: it is recorded
  at the end of \<open>gpio_writes\<close> with the pin and the value that were passed.
\<close>

definition gpiod_set_value :: "gpio \<Rightarrow> int \<Rightarrow> modduox \<Rightarrow> modduox" where
  "gpiod_set_value desc v s = s\<lparr>gpio_writes := gpio_writes s @ [(desc, v)]\<rparr>"

subsection \<open>Headphone volume\<close>

text \<open>
  The clock loop \<^verbatim>\<open>for (i=0; i < steps; i++)\<close> of \<^verbatim>\<open>set_headphone_volume\<close>, from counter
  \<open>i\<close> on: each round drives the clock pin to 1 and then to 0. \<^verbatim>\<open>moddevices_init\<close>
  runs the same loop with 16 for \<open>steps\<close>.
\<close>

function headphone_clk_loop :: "int \<Rightarrow> int \<Rightarrow> modduox \<Rightarrow> modduox" where
  "headphone_clk_loop i steps s =
     (if i < steps then
        headphone_clk_loop (i + 1) steps
          (gpiod_set_value Headphone_clk 0 (gpiod_set_value Headphone_clk 1 s))
      else s)"
  by pat_completeness auto
termination
  by (relation "measure (\<lambda>(i, steps, s). nat (steps - i))") auto

declare headphone_clk_loop.simps [simp del]

definition set_headphone_volume :: "int \<Rightarrow> modduox \<Rightarrow> modduox" where
  "set_headphone_volume new_volume s =
     (let steps = c_abs (s32 (new_volume - headphone_volume s));
          s1 = (if initialized s then
                  headphone_clk_loop 0 steps
                    (gpiod_set_value Headphone_dir
                       (if new_volume > headphone_volume s then 1 else 0) s)
                else s)
      in s1\<lparr>headphone_volume := new_volume\<rparr>)"

subsection \<open>Gain stage and true bypass\<close>

text \<open>
  \<^verbatim>\<open>set_gain_stage(channel, state)\<close>: the first \<^verbatim>\<open>switch\<close> picks the two pins of the
  channel and stores \<open>state\<close> in the channel's variable, or returns for any other
  channel; the second \<^verbatim>\<open>switch\<close>, reached only when \<open>initialized\<close> is set, has the four
  cases 0 to 3 and no default.
\<close>

definition set_gain_stage :: "int \<Rightarrow> int \<Rightarrow> modduox \<Rightarrow> modduox" where
  "set_gain_stage channel state s =
     (case (if channel = CHANNEL_LEFT then
              Some (Gain_stage_left1, Gain_stage_left2, s\<lparr>input_left_gain_stage := state\<rparr>)
            else if channel = CHANNEL_RIGHT then
              Some (Gain_stage_right1, Gain_stage_right2, s\<lparr>input_right_gain_stage := state\<rparr>)
            else None) of
        None \<Rightarrow> s
      | Some (gpio1, gpio2, s1) \<Rightarrow>
          if \<not> initialized s1 then s1
          else if state = 0 then gpiod_set_value gpio2 1 (gpiod_set_value gpio1 1 s1)
          else if state = 1 then gpiod_set_value gpio2 0 (gpiod_set_value gpio1 1 s1)
          else if state = 2 then gpiod_set_value gpio2 1 (gpiod_set_value gpio1 0 s1)
          else if state = 3 then gpiod_set_value gpio2 0 (gpiod_set_value gpio1 0 s1)
          else s1)"

definition set_true_bypass :: "int \<Rightarrow> bool \<Rightarrow> modduox \<Rightarrow> modduox" where
  "set_true_bypass channel state s =
     (if channel = CHANNEL_LEFT then
        (if initialized s then
           gpiod_set_value True_bypass_left (if state then GPIO_BYPASS else GPIO_PROCESS) s
         else s)\<lparr>left_true_bypass := state\<rparr>
      else if channel = CHANNEL_RIGHT then
        (if initialized s then
           gpiod_set_value True_bypass_right (if state then GPIO_BYPASS else GPIO_PROCESS) s
         else s)\<lparr>right_true_bypass := state\<rparr>
      else s)"

subsection \<open>Mode switches\<close>

definition set_headphone_cv_mode :: "int \<Rightarrow> modduox \<Rightarrow> modduox" where
  "set_headphone_cv_mode mode s =
     (if mode = 0 \<or> mode = 1 then
        (if initialized s then gpiod_set_value Headphone_cv_mode mode s
         else s)\<lparr>headphone_cv_mode := (mode \<noteq> 0)\<rparr>
      else s)"

definition set_exp_pedal_mode :: "int \<Rightarrow> modduox \<Rightarrow> modduox" where
  "set_exp_pedal_mode mode s =
     (if mode = 0 \<or> mode = 1 then
        (if cv_exp_pedal_mode s \<and> initialized s then
           (if irqFlag1 s \<le> 0 \<or> irqFlag2 s \<le> 0 then s
            else if mode = int_of_bool EXP_PEDAL_SIGNAL_ON_TIP then
              gpiod_set_value Exp_enable2 1 (gpiod_set_value Exp_enable1 0 s)
            else
              gpiod_set_value Exp_enable1 1 (gpiod_set_value Exp_enable2 0 s))
         else s)\<lparr>exp_pedal_mode := (mode \<noteq> 0)\<rparr>
      else s)"

definition set_cv_exp_pedal_mode :: "int \<Rightarrow> modduox \<Rightarrow> modduox" where
  "set_cv_exp_pedal_mode mode s =
     (if mode = 0 then
        (let s1 = s\<lparr>cv_exp_pedal_mode := False\<rparr>
         in if initialized s1 then
              gpiod_set_value Exp_enable2 0 (gpiod_set_value Exp_enable1 0 s1)
            else s1)
      else if mode = 1 then
        (let s1 = s\<lparr>cv_exp_pedal_mode := True\<rparr>
         in set_exp_pedal_mode (int_of_bool (exp_pedal_mode s1)) s1)
      else s)"

text \<open>
  \<^verbatim>\<open>exp_flag_irq_handler(irq, dev_id)\<close>: it prints the interrupt number and the levels
  read from the two sense pins, which changes nothing, and calls
  \<^verbatim>\<open>set_cv_exp_pedal_mode(0)\<close>.
\<close>

definition exp_flag_irq_handler :: "int \<Rightarrow> modduox \<Rightarrow> modduox" where
  "exp_flag_irq_handler irq s = set_cv_exp_pedal_mode 0 s"

subsection \<open>Control handlers\<close>

text \<open>
  The \<^verbatim>\<open>get\<close> handlers store a variable in \<^verbatim>\<open>ucontrol->value.integer.value[0]\<close> and
  return 0; here each returns the stored number, a boolean as 0 or 1.
  \<^verbatim>\<open>headphone_put\<close> takes that \<^verbatim>\<open>long\<close>, calls the setter only when it differs from the
  variable, and returns whether it did; the \<^verbatim>\<open>long\<close> is narrowed to the setter's
  \<^verbatim>\<open>int\<close> parameter.
\<close>

definition headphone_get :: "modduox \<Rightarrow> int" where
  "headphone_get s = headphone_volume s"

definition headphone_put :: "int \<Rightarrow> modduox \<Rightarrow> int \<times> modduox" where
  "headphone_put v s =
     (if headphone_volume s \<noteq> v then (1, set_headphone_volume (s32 v) s) else (0, s))"

text \<open>
  \<^verbatim>\<open>input_gain_stage_info\<close> fills in what the gain-stage controls declare about their
  value: an integer control with one value, from 0 to 3.
\<close>

datatype elem_type = SNDRV_CTL_ELEM_TYPE_BOOLEAN | SNDRV_CTL_ELEM_TYPE_INTEGER

record ctl_elem_info =
  elem_type :: elem_type
  elem_count :: int
  integer_min :: int
  integer_max :: int

definition input_gain_stage_info :: ctl_elem_info where
  "input_gain_stage_info =
     \<lparr>elem_type = SNDRV_CTL_ELEM_TYPE_INTEGER, elem_count = 1,
      integer_min = 0, integer_max = 3\<rparr>"

definition input_left_gain_stage_get :: "modduox \<Rightarrow> int" where
  "input_left_gain_stage_get s = input_left_gain_stage s"

definition input_right_gain_stage_get :: "modduox \<Rightarrow> int" where
  "input_right_gain_stage_get s = input_right_gain_stage s"

definition left_true_bypass_get :: "modduox \<Rightarrow> int" where
  "left_true_bypass_get s = int_of_bool (left_true_bypass s)"

definition right_true_bypass_get :: "modduox \<Rightarrow> int" where
  "right_true_bypass_get s = int_of_bool (right_true_bypass s)"

definition headphone_cv_mode_get :: "modduox \<Rightarrow> int" where
  "headphone_cv_mode_get s = int_of_bool (headphone_cv_mode s)"

definition cv_exp_pedal_mode_get :: "modduox \<Rightarrow> int" where
  "cv_exp_pedal_mode_get s = int_of_bool (cv_exp_pedal_mode s)"

definition exp_pedal_mode_get :: "modduox \<Rightarrow> int" where
  "exp_pedal_mode_get s = int_of_bool (exp_pedal_mode s)"

subsection \<open>Initialisation\<close>

text \<open>
  What the kernel answers during \<^verbatim>\<open>moddevices_init\<close>: whether the allocation
  succeeded, the handle \<^verbatim>\<open>devm_gpiod_get\<close> returned for each pin (a descriptor, an
  error pointer or \<^verbatim>\<open>NULL\<close>), the number \<^verbatim>\<open>gpiod_to_irq\<close> returned for a pin, and the
  return code of \<^verbatim>\<open>request_irq\<close> for an interrupt line.
\<close>

datatype gpio_desc = Desc | Err_ptr | Null_ptr

record probe_env =
  kzalloc_ok :: bool
  devm_gpiod_get :: "gpio \<Rightarrow> gpio_desc"
  gpiod_to_irq :: "gpio \<Rightarrow> int"
  request_irq_ret :: "int \<Rightarrow> int"

definition IS_ERR :: "gpio_desc \<Rightarrow> bool" where
  "IS_ERR p = (p = Err_ptr)"

text \<open>
  Modelled from the spec: \<^verbatim>\<open>request_irq\<close> is the kernel's call that installs a handler
  on an interrupt line; its code is not part of the driver. It returns 0 when the handler
  is installed, and the spec's Mode Arbiter is then driven by that line ("reacts to an
  asynchronous edge-triggered event on two sense lines"). The only handler the driver
  passes is \<^verbatim>\<open>exp_flag_irq_handler\<close>, so an installed line is recorded by its number.
\<close>

definition request_irq :: "probe_env \<Rightarrow> int \<Rightarrow> modduox \<Rightarrow> int \<times> modduox" where
  "request_irq env irq s =
     (let ret = request_irq_ret env irq
      in (ret, if ret = 0 then s\<lparr>irq_actions := irq_actions s @ [irq]\<rparr> else s))"

text \<open>
  The variables as their initialisers leave them when the module is loaded. The fields
  of the pin struct are shown as the zero-filling allocation will make them.
\<close>

definition module_globals :: modduox where
  "module_globals =
     \<lparr>headphone_volume = 0,
      input_left_gain_stage = 0,
      input_right_gain_stage = 0,
      left_true_bypass = True,
      right_true_bypass = True,
      headphone_cv_mode = False,
      cv_exp_pedal_mode = False,
      exp_pedal_mode = EXP_PEDAL_SIGNAL_ON_TIP,
      irqFlag1 = 0,
      irqFlag2 = 0,
      initialized = False,
      gpio_writes = [],
      irq_actions = []\<rparr>"

text \<open>
  \<^verbatim>\<open>moddevices_init\<close>. The two calls of \<^verbatim>\<open>request_irq\<close> are joined by \<^verbatim>\<open>||\<close>: the second
  is made only when the first returned 0, and a failure of either clears both stored
  interrupt numbers.
\<close>

definition moddevices_init :: "probe_env \<Rightarrow> modduox \<Rightarrow> errno + modduox" where
  "moddevices_init env s =
     (if \<not> kzalloc_ok env then Inl ENOMEM
      else
        let s0 = s\<lparr>irqFlag1 := 0, irqFlag2 := 0, initialized := False\<rparr>
        in if IS_ERR (devm_gpiod_get env Gain_stage_left1)
              \<or> devm_gpiod_get env Gain_stage_left2 = Null_ptr
           then Inr (s0\<lparr>initialized := False\<rparr>)
           else
             let s1 = gpiod_set_value Headphone_dir 0 s0;
                 s2 = headphone_clk_loop 0 16 s1;
                 s3 = gpiod_set_value Headphone_cv_mode
                        (if headphone_cv_mode s2 then 1 else 0) s2;
                 s4 = gpiod_set_value Exp_enable1 0 s3;
                 s5 = gpiod_set_value Exp_enable2 0 s4;
                 s6 = gpiod_set_value Gain_stage_left1 1 s5;
                 s7 = gpiod_set_value Gain_stage_left2 1 s6;
                 s8 = gpiod_set_value Gain_stage_right1 1 s7;
                 s9 = gpiod_set_value Gain_stage_right2 1 s8;
                 s10 = s9\<lparr>initialized := True\<rparr>;
                 s11 = s10\<lparr>irqFlag1 := gpiod_to_irq env Exp_flag1\<rparr>;
                 s12 = s11\<lparr>irqFlag2 := gpiod_to_irq env Exp_flag2\<rparr>
             in Inr
                 (if irqFlag1 s12 > 0 \<and> irqFlag2 s12 > 0 then
                    (case request_irq env (irqFlag1 s12) s12 of
                       (ret1, s13) \<Rightarrow>
                         if ret1 \<noteq> 0 then s13\<lparr>irqFlag1 := 0, irqFlag2 := 0\<rparr>
                         else
                           (case request_irq env (irqFlag2 s13) s13 of
                              (ret2, s14) \<Rightarrow>
                                if ret2 \<noteq> 0 then s14\<lparr>irqFlag1 := 0, irqFlag2 := 0\<rparr>
                                else s14))
                  else s12))"

subsection \<open>The driver in operation\<close>

text \<open>
  After initialisation the driver is entered in two ways: a control write calls one of
  the setters, with any arguments, and an interrupt on a line with an installed handler
  calls \<^verbatim>\<open>exp_flag_irq_handler\<close>. An interrupt on a line without a handler does not
  reach the driver.
\<close>

datatype control =
    Set_headphone_volume int
  | Set_gain_stage int int
  | Set_true_bypass int bool
  | Set_headphone_cv_mode int
  | Set_exp_pedal_mode int
  | Set_cv_exp_pedal_mode int

fun control_call :: "control \<Rightarrow> modduox \<Rightarrow> modduox" where
  "control_call (Set_headphone_volume v) s = set_headphone_volume v s"
| "control_call (Set_gain_stage channel state) s = set_gain_stage channel state s"
| "control_call (Set_true_bypass channel state) s = set_true_bypass channel state s"
| "control_call (Set_headphone_cv_mode mode) s = set_headphone_cv_mode mode s"
| "control_call (Set_exp_pedal_mode mode) s = set_exp_pedal_mode mode s"
| "control_call (Set_cv_exp_pedal_mode mode) s = set_cv_exp_pedal_mode mode s"

datatype event = Call control | Irq int

fun fire :: "event \<Rightarrow> modduox \<Rightarrow> modduox option" where
  "fire (Call c) s = Some (control_call c s)"
| "fire (Irq n) s =
     (if n \<in> set (irq_actions s) then Some (exp_flag_irq_handler n s) else None)"

fun run :: "event list \<Rightarrow> modduox \<Rightarrow> modduox option" where
  "run [] s = Some s"
| "run (e # es) s = (case fire e s of None \<Rightarrow> None | Some s' \<Rightarrow> run es s')"

subsection \<open>The gain-stage encoding as the specification words it\<close>

text \<open>
  The specification gives the encoding as a table, "level 0 \<rightarrow> (1,1), level 1 \<rightarrow> (1,0),
  level 2 \<rightarrow> (0,1), level 3 \<rightarrow> (0,0)", on the two gain pins of the channel. The two
  definitions below are that table and that choice of pins, and \<open>spec_gain_stage_writes\<close>
  is the pair of pin writes they call for, first pin first. They are what
  \<open>set_gain_stage\<close> is compared with.
\<close>

definition spec_gain_stage_pattern :: "int \<Rightarrow> int \<times> int" where
  "spec_gain_stage_pattern level =
     (if level = 0 then (1, 1)
      else if level = 1 then (1, 0)
      else if level = 2 then (0, 1)
      else (0, 0))"

definition spec_gain_stage_pins :: "int \<Rightarrow> gpio \<times> gpio" where
  "spec_gain_stage_pins channel =
     (if channel = CHANNEL_LEFT then (Gain_stage_left1, Gain_stage_left2)
      else (Gain_stage_right1, Gain_stage_right2))"

definition spec_gain_stage_writes :: "int \<Rightarrow> int \<Rightarrow> (gpio \<times> int) list" where
  "spec_gain_stage_writes channel level =
     [(fst (spec_gain_stage_pins channel), fst (spec_gain_stage_pattern level)),
      (snd (spec_gain_stage_pins channel), snd (spec_gain_stage_pattern level))]"

section \<open>Properties of the clock resolver\<close>

lemma clk_map_table_length: "length clk_map_table = 45"
  by (simp add: clk_map_table_def)

lemma clk_keys_distinct:
  "distinct (map (\<lambda>e. (mclk e, rate e)) clk_map_table)"
  by (simp add: clk_map_table_def clk_para_def)

lemma get_clk_index_loop_Inr:
  "get_clk_index_loop i m r = Inr k \<Longrightarrow>
     i \<le> k \<and> k < length clk_map_table \<and>
     rate (clk_map_table ! k) = r \<and> mclk (clk_map_table ! k) = m \<and>
     (\<forall>j. i \<le> j \<and> j < k \<longrightarrow>
        \<not> (rate (clk_map_table ! j) = r \<and> mclk (clk_map_table ! j) = m))"
proof (induction i m r rule: get_clk_index_loop.induct)
  case (1 i m r)
  show ?case
  proof (cases "i < length clk_map_table")
    case False
    with "1.prems" show ?thesis
      by (simp add: get_clk_index_loop.simps [of i])
  next
    case inb: True
    show ?thesis
    proof (cases "rate (clk_map_table ! i) = r \<and> mclk (clk_map_table ! i) = m")
      case True
      with inb "1.prems" have "k = i"
        by (simp add: get_clk_index_loop.simps [of i])
      with inb True show ?thesis by auto
    next
      case False
      with inb "1.prems" have "get_clk_index_loop (i + 1) m r = Inr k"
        by (simp add: get_clk_index_loop.simps [of i])
      with "1.IH" inb False
      have ih: "i + 1 \<le> k \<and> k < length clk_map_table \<and>
          rate (clk_map_table ! k) = r \<and> mclk (clk_map_table ! k) = m \<and>
          (\<forall>j. i + 1 \<le> j \<and> j < k \<longrightarrow>
             \<not> (rate (clk_map_table ! j) = r \<and> mclk (clk_map_table ! j) = m))"
        by blast
      have "\<not> (rate (clk_map_table ! j) = r \<and> mclk (clk_map_table ! j) = m)"
        if "i \<le> j" "j < k" for j
      proof (cases "j = i")
        case True
        with False show ?thesis by simp
      next
        case False
        with that have "i + 1 \<le> j" by simp
        with ih that show ?thesis by blast
      qed
      with ih show ?thesis by auto
    qed
  qed
qed

lemma get_clk_index_loop_Inl:
  "get_clk_index_loop i m r = Inl e \<Longrightarrow>
     e = EINVAL \<and>
     (\<forall>j. i \<le> j \<and> j < length clk_map_table \<longrightarrow>
        \<not> (rate (clk_map_table ! j) = r \<and> mclk (clk_map_table ! j) = m))"
proof (induction i m r rule: get_clk_index_loop.induct)
  case (1 i m r)
  show ?case
  proof (cases "i < length clk_map_table")
    case False
    with "1.prems" show ?thesis
      by (auto simp: get_clk_index_loop.simps [of i])
  next
    case inb: True
    from inb "1.prems"
    have nomatch: "\<not> (rate (clk_map_table ! i) = r \<and> mclk (clk_map_table ! i) = m)"
      by (auto simp: get_clk_index_loop.simps [of i])
    with inb "1.prems" have "get_clk_index_loop (i + 1) m r = Inl e"
      by (simp add: get_clk_index_loop.simps [of i])
    with "1.IH" inb nomatch
    have ih: "e = EINVAL \<and> (\<forall>j. i + 1 \<le> j \<and> j < length clk_map_table \<longrightarrow>
        \<not> (rate (clk_map_table ! j) = r \<and> mclk (clk_map_table ! j) = m))"
      by blast
    have "\<not> (rate (clk_map_table ! j) = r \<and> mclk (clk_map_table ! j) = m)"
      if "i \<le> j" "j < length clk_map_table" for j
    proof (cases "j = i")
      case True
      with nomatch show ?thesis by simp
    next
      case False
      with that have "i + 1 \<le> j" by simp
      with ih that show ?thesis by blast
    qed
    with ih show ?thesis by auto
  qed
qed

text \<open>
  Claim C1. For every (master clock, sample rate) pair that occurs in \<open>clk_map_table\<close>,
  \<^verbatim>\<open>cs4245_get_clk_index\<close> returns the index of that very row, so the caller reads the
  row's \<open>fm_mode\<close> and \<open>mclkdiv\<close>, and no earlier row matches the pair (the scan stops
  at the first match). For every pair that occurs in no row it returns \<^verbatim>\<open>-EINVAL\<close>.
  Nothing is made up: whatever index comes back lies inside the table and names a row
  with exactly the requested master clock and rate.
\<close>

theorem clk_lookup_exact:
  "(\<forall>e \<in> set clk_map_table.
      \<exists>i < length clk_map_table.
        cs4245_get_clk_index (mclk e) (rate e) = Inr i \<and> clk_map_table ! i = e \<and>
        (\<forall>j < i. \<not> (rate (clk_map_table ! j) = rate e \<and> mclk (clk_map_table ! j) = mclk e)))
   \<and> (\<forall>m r. (\<forall>e \<in> set clk_map_table. \<not> (mclk e = m \<and> rate e = r)) \<longrightarrow>
         cs4245_get_clk_index m r = Inl EINVAL)
   \<and> (\<forall>m r i. cs4245_get_clk_index m r = Inr i \<longrightarrow>
         i < length clk_map_table \<and>
         mclk (clk_map_table ! i) = m \<and> rate (clk_map_table ! i) = r)"
proof (intro conjI ballI allI impI)
  fix e
  assume e: "e \<in> set clk_map_table"
  then obtain n where n: "n < length clk_map_table" "clk_map_table ! n = e"
    by (auto simp: in_set_conv_nth)
  show "\<exists>i < length clk_map_table.
        cs4245_get_clk_index (mclk e) (rate e) = Inr i \<and> clk_map_table ! i = e \<and>
        (\<forall>j < i. \<not> (rate (clk_map_table ! j) = rate e \<and> mclk (clk_map_table ! j) = mclk e))"
  proof (cases "cs4245_get_clk_index (mclk e) (rate e)")
    case (Inl x)
    then have "\<forall>j. 0 \<le> j \<and> j < length clk_map_table \<longrightarrow>
        \<not> (rate (clk_map_table ! j) = rate e \<and> mclk (clk_map_table ! j) = mclk e)"
      using get_clk_index_loop_Inl [of 0 "mclk e" "rate e" x]
      by (simp add: cs4245_get_clk_index_def)
    with n have False by blast
    then show ?thesis ..
  next
    case (Inr i)
    then have i: "i < length clk_map_table" "rate (clk_map_table ! i) = rate e"
      "mclk (clk_map_table ! i) = mclk e"
      "\<forall>j < i. \<not> (rate (clk_map_table ! j) = rate e \<and> mclk (clk_map_table ! j) = mclk e)"
      using get_clk_index_loop_Inr [of 0 "mclk e" "rate e" i]
      by (simp_all add: cs4245_get_clk_index_def)
    have "map (\<lambda>e. (mclk e, rate e)) clk_map_table ! i
        = map (\<lambda>e. (mclk e, rate e)) clk_map_table ! n"
      using i n by simp
    with clk_keys_distinct i(1) n(1) have "i = n"
      by (simp add: nth_eq_iff_index_eq del: nth_map)
    with Inr i n show ?thesis by simp
  qed
next
  fix m r
  assume absent: "\<forall>e \<in> set clk_map_table. \<not> (mclk e = m \<and> rate e = r)"
  show "cs4245_get_clk_index m r = Inl EINVAL"
  proof (cases "cs4245_get_clk_index m r")
    case (Inl x)
    then show ?thesis
      using get_clk_index_loop_Inl [of 0 m r x] by (simp add: cs4245_get_clk_index_def)
  next
    case (Inr i)
    then have "i < length clk_map_table \<and> rate (clk_map_table ! i) = r \<and>
        mclk (clk_map_table ! i) = m"
      using get_clk_index_loop_Inr [of 0 m r i] by (simp add: cs4245_get_clk_index_def)
    with absent show ?thesis
      using nth_mem by blast
  qed
next
  fix m r i
  assume "cs4245_get_clk_index m r = Inr i"
  then have h: "i < length clk_map_table \<and> rate (clk_map_table ! i) = r \<and>
        mclk (clk_map_table ! i) = m"
    using get_clk_index_loop_Inr [of 0 m r i] by (simp add: cs4245_get_clk_index_def)
  from h show "i < length clk_map_table" by simp
  from h show "mclk (clk_map_table ! i) = m" by simp
  from h show "rate (clk_map_table ! i) = r" by simp
qed

theorem clk_lookup_exact_witness:
  "(\<exists>i < length clk_map_table.
      cs4245_get_clk_index 12288000 48000 = Inr i \<and>
      fm_mode (clk_map_table ! i) = 0 \<and> mclkdiv (clk_map_table ! i) = 0)
   \<and> cs4245_get_clk_index 12000000 48000 = Inl EINVAL
   \<and> cs4245_get_clk_index 24576000 96000 = Inr 27
   \<and> mclk (clk_map_table ! 27) = 24576000 \<and> rate (clk_map_table ! 27) = 96000"
proof (intro conjI)
  have "clk_para 12288000 48000 0 0 \<in> set clk_map_table"
    by (simp add: clk_map_table_def)
  with clk_lookup_exact
  have "\<exists>i < length clk_map_table.
      cs4245_get_clk_index (mclk (clk_para 12288000 48000 0 0))
        (rate (clk_para 12288000 48000 0 0)) = Inr i \<and>
      clk_map_table ! i = clk_para 12288000 48000 0 0"
    by blast
  then show "\<exists>i < length clk_map_table.
      cs4245_get_clk_index 12288000 48000 = Inr i \<and>
      fm_mode (clk_map_table ! i) = 0 \<and> mclkdiv (clk_map_table ! i) = 0"
    by (auto simp: clk_para_def)
next
  have "\<forall>e \<in> set clk_map_table. \<not> (mclk e = 12000000 \<and> rate e = 48000)"
    by (simp add: clk_map_table_def clk_para_def)
  with clk_lookup_exact show "cs4245_get_clk_index 12000000 48000 = Inl EINVAL"
    by blast
next
  show found: "cs4245_get_clk_index 24576000 96000 = Inr 27"
    by (simp add: cs4245_get_clk_index_def get_clk_index_loop.simps clk_map_table_def
        clk_para_def)
  with clk_lookup_exact show "mclk (clk_map_table ! 27) = 24576000"
    by blast
  from found clk_lookup_exact show "rate (clk_map_table ! 27) = 96000"
    by blast
qed

lemma get_clk_index_absent:
  assumes "\<forall>e \<in> set clk_map_table. \<not> (mclk e = m \<and> rate e = r)"
  shows "cs4245_get_clk_index m r = Inl EINVAL"
proof (cases "cs4245_get_clk_index m r")
  case (Inl x)
  then show ?thesis
    using get_clk_index_loop_Inl [of 0 m r x] by (simp add: cs4245_get_clk_index_def)
next
  case (Inr i)
  then have "i < length clk_map_table \<and> rate (clk_map_table ! i) = r \<and>
      mclk (clk_map_table ! i) = m"
    using get_clk_index_loop_Inr [of 0 m r i] by (simp add: cs4245_get_clk_index_def)
  with assms show ?thesis
    using nth_mem by blast
qed

lemma clk_map_table_mclk_nonzero: "\<forall>e \<in> set clk_map_table. mclk e \<noteq> 0"
  by (simp add: clk_map_table_def clk_para_def)

lemma get_clk_index_unset: "cs4245_get_clk_index 0 r = Inl EINVAL"
  using clk_map_table_mclk_nonzero by (intro get_clk_index_absent) blast

lemma set_sysclk_loop_result:
  "set_sysclk_loop i freq p =
     (if \<exists>j. i \<le> j \<and> j < length clk_map_table \<and> mclk (clk_map_table ! j) = freq
      then (OK, p\<lparr>sysclk := freq\<rparr>)
      else (Inl EINVAL, p\<lparr>sysclk := 0\<rparr>))"
proof (induction i freq p rule: set_sysclk_loop.induct)
  case (1 i freq p)
  show ?case
  proof (cases "i < length clk_map_table")
    case False
    then have "\<not> (\<exists>j. i \<le> j \<and> j < length clk_map_table \<and> mclk (clk_map_table ! j) = freq)"
      by auto
    with False show ?thesis
      by (simp add: set_sysclk_loop.simps [of i])
  next
    case inb: True
    show ?thesis
    proof (cases "mclk (clk_map_table ! i) = freq")
      case True
      with inb have "\<exists>j. i \<le> j \<and> j < length clk_map_table \<and> mclk (clk_map_table ! j) = freq"
        by blast
      with inb True show ?thesis
        by (simp add: set_sysclk_loop.simps [of i])
    next
      case False
      have "(\<exists>j. i \<le> j \<and> j < length clk_map_table \<and> mclk (clk_map_table ! j) = freq)
          = (\<exists>j. i + 1 \<le> j \<and> j < length clk_map_table \<and> mclk (clk_map_table ! j) = freq)"
      proof
        assume "\<exists>j. i \<le> j \<and> j < length clk_map_table \<and> mclk (clk_map_table ! j) = freq"
        then obtain j where j: "i \<le> j" "j < length clk_map_table" "mclk (clk_map_table ! j) = freq"
          by blast
        with False have "j \<noteq> i" by blast
        with j have "i + 1 \<le> j" by simp
        with j show "\<exists>j. i + 1 \<le> j \<and> j < length clk_map_table \<and> mclk (clk_map_table ! j) = freq"
          by blast
      next
        assume "\<exists>j. i + 1 \<le> j \<and> j < length clk_map_table \<and> mclk (clk_map_table ! j) = freq"
        then obtain j where j: "i + 1 \<le> j" "j < length clk_map_table" "mclk (clk_map_table ! j) = freq"
          by blast
        then have "i \<le> j" by simp
        with j show "\<exists>j. i \<le> j \<and> j < length clk_map_table \<and> mclk (clk_map_table ! j) = freq"
          by blast
      qed
      moreover from inb False
      have "set_sysclk_loop i freq p = set_sysclk_loop (i + 1) freq p"
        by (simp add: set_sysclk_loop.simps [of i])
      moreover note "1.IH" [OF inb False]
      ultimately show ?thesis by simp
    qed
  qed
qed

lemma set_sysclk_scan:
  "set_sysclk_loop 0 freq p =
     (if \<exists>e \<in> set clk_map_table. mclk e = freq then (OK, p\<lparr>sysclk := freq\<rparr>)
      else (Inl EINVAL, p\<lparr>sysclk := 0\<rparr>))"
proof -
  have "(\<exists>j. 0 \<le> j \<and> j < length clk_map_table \<and> mclk (clk_map_table ! j) = freq)
      = (\<exists>e \<in> set clk_map_table. mclk e = freq)"
  proof
    assume "\<exists>j. 0 \<le> j \<and> j < length clk_map_table \<and> mclk (clk_map_table ! j) = freq"
    then obtain j where "j < length clk_map_table" "mclk (clk_map_table ! j) = freq"
      by blast
    then show "\<exists>e \<in> set clk_map_table. mclk e = freq"
      using nth_mem by blast
  next
    assume "\<exists>e \<in> set clk_map_table. mclk e = freq"
    then obtain e where "e \<in> set clk_map_table" "mclk e = freq"
      by blast
    then show "\<exists>j. 0 \<le> j \<and> j < length clk_map_table \<and> mclk (clk_map_table ! j) = freq"
      by (auto simp: in_set_conv_nth)
  qed
  then show ?thesis
    by (simp add: set_sysclk_loop_result [of 0])
qed

text \<open>
  Claim C2 says that a call with a non-zero frequency succeeds exactly when the frequency
  occurs as a master clock in the table, and that a failing call clears the stored clock.
  The function has a second gate, on \<open>clk_id\<close>: with \<open>clk_id = 1\<close> the frequency 12288000,
  which is the master clock of row 1, is refused with \<^verbatim>\<open>-EINVAL\<close>, and the clock stored
  before (24576000) is neither replaced nor cleared, so a later lookup against it still
  succeeds.
\<close>

theorem set_sysclk_clk_id_counterexample:
  "mclk (clk_map_table ! 1) = 12288000 \<and>
   cs4245_set_sysclk 1 12288000 0 \<lparr>format = 0, sysclk = 24576000\<rparr>
     = (Inl EINVAL, \<lparr>format = 0, sysclk = 24576000\<rparr>) \<and>
   clk_para 24576000 32000 0 3 \<in> set clk_map_table \<and>
   cs4245_get_clk_index 24576000 32000 = Inr 3"
  by (simp add: cs4245_set_sysclk_def clk_map_table_def clk_para_def
      cs4245_get_clk_index_def get_clk_index_loop.simps)

text \<open>
  Claim C2, amended. With \<open>clk_id = 0\<close> and a non-zero frequency the call succeeds exactly
  when the frequency is the master clock of some row of the table, and then stores it;
  when it is the master clock of no row the call fails with \<^verbatim>\<open>-EINVAL\<close> and the stored
  clock becomes 0, against which every later lookup fails. With \<open>clk_id \<noteq> 0\<close> and a
  non-zero frequency the call fails with \<^verbatim>\<open>-EINVAL\<close> and leaves the stored clock as it
  was. Frequency 0 succeeds and changes nothing, whatever \<open>clk_id\<close> is.
\<close>

theorem set_sysclk_amended:
  "(freq \<noteq> 0 \<and> clk_id = 0 \<and> (\<exists>e \<in> set clk_map_table. mclk e = freq) \<longrightarrow>
      cs4245_set_sysclk clk_id freq dir p = (OK, p\<lparr>sysclk := freq\<rparr>))
   \<and> (freq \<noteq> 0 \<and> clk_id = 0 \<and> \<not> (\<exists>e \<in> set clk_map_table. mclk e = freq) \<longrightarrow>
      cs4245_set_sysclk clk_id freq dir p = (Inl EINVAL, p\<lparr>sysclk := 0\<rparr>) \<and>
      (\<forall>r. cs4245_get_clk_index (sysclk (snd (cs4245_set_sysclk clk_id freq dir p))) r
            = Inl EINVAL))
   \<and> (freq \<noteq> 0 \<and> clk_id \<noteq> 0 \<longrightarrow>
      cs4245_set_sysclk clk_id freq dir p = (Inl EINVAL, p))
   \<and> cs4245_set_sysclk clk_id 0 dir p = (OK, p)"
  by (simp add: cs4245_set_sysclk_def set_sysclk_scan get_clk_index_unset)

theorem set_sysclk_amended_witness:
  "cs4245_set_sysclk 0 12288000 0 \<lparr>format = 0, sysclk = 0\<rparr>
     = (OK, \<lparr>format = 0, sysclk = 12288000\<rparr>)
   \<and> cs4245_set_sysclk 0 12000000 0 \<lparr>format = 0, sysclk = 24576000\<rparr>
     = (Inl EINVAL, \<lparr>format = 0, sysclk = 0\<rparr>)
   \<and> cs4245_get_clk_index
       (sysclk (snd (cs4245_set_sysclk 0 12000000 0 \<lparr>format = 0, sysclk = 24576000\<rparr>))) 48000
     = Inl EINVAL
   \<and> cs4245_set_sysclk 1 12288000 0 \<lparr>format = 0, sysclk = 24576000\<rparr>
     = (Inl EINVAL, \<lparr>format = 0, sysclk = 24576000\<rparr>)"
proof -
  have in_table: "\<exists>e \<in> set clk_map_table. mclk e = 12288000"
    by (simp add: clk_map_table_def clk_para_def)
  have absent: "\<not> (\<exists>e \<in> set clk_map_table. mclk e = 12000000)"
    by (simp add: clk_map_table_def clk_para_def)
  have a: "cs4245_set_sysclk 0 12288000 0 \<lparr>format = 0, sysclk = 0\<rparr>
     = (OK, \<lparr>format = 0, sysclk = 12288000\<rparr>)"
    using set_sysclk_amended [of 12288000 0 0 "\<lparr>format = 0, sysclk = 0\<rparr>"] in_table
    by simp
  have nz: "(12000000 :: u32) \<noteq> 0"
    by simp
  have b0: "cs4245_set_sysclk 0 12000000 0 \<lparr>format = 0, sysclk = 24576000\<rparr>
       = (Inl EINVAL, \<lparr>format = 0, sysclk = 24576000\<rparr>\<lparr>sysclk := 0\<rparr>) \<and>
     (\<forall>r. cs4245_get_clk_index
       (sysclk (snd (cs4245_set_sysclk 0 12000000 0 \<lparr>format = 0, sysclk = 24576000\<rparr>))) r
         = Inl EINVAL)"
    using set_sysclk_amended [of 12000000 0 0 "\<lparr>format = 0, sysclk = 24576000\<rparr>"] nz absent
    by blast
  from b0 have b1: "cs4245_set_sysclk 0 12000000 0 \<lparr>format = 0, sysclk = 24576000\<rparr>
     = (Inl EINVAL, \<lparr>format = 0, sysclk = 0\<rparr>)"
    by simp
  from b0 have b2: "cs4245_get_clk_index
       (sysclk (snd (cs4245_set_sysclk 0 12000000 0 \<lparr>format = 0, sysclk = 24576000\<rparr>))) 48000
     = Inl EINVAL"
    by blast
  have c: "cs4245_set_sysclk 1 12288000 0 \<lparr>format = 0, sysclk = 24576000\<rparr>
     = (Inl EINVAL, \<lparr>format = 0, sysclk = 24576000\<rparr>)"
    using set_sysclk_amended [of 12288000 1 0 "\<lparr>format = 0, sysclk = 24576000\<rparr>"]
    by simp
  from a b1 b2 c show ?thesis by blast
qed

section \<open>Properties of the board-level controls\<close>

subsection \<open>Headphone volume\<close>

lemma s32_id: "- (2 ^ 31) \<le> x \<Longrightarrow> x < 2 ^ 31 \<Longrightarrow> s32 x = x"
  by (simp add: s32_def)

lemma c_abs_small: "- (2 ^ 31) < x \<Longrightarrow> x < 2 ^ 31 \<Longrightarrow> c_abs x = \<bar>x\<bar>"
  by (simp add: c_abs_def s32_id)

lemma headphone_clk_loop_eq:
  "headphone_clk_loop i steps s =
     s\<lparr>gpio_writes := gpio_writes s
          @ concat (replicate (nat (steps - i)) [(Headphone_clk, 1), (Headphone_clk, 0)])\<rparr>"
proof (induction i steps s rule: headphone_clk_loop.induct)
  case (1 i steps s)
  show ?case
  proof (cases "i < steps")
    case False
    then show ?thesis
      by (simp add: headphone_clk_loop.simps [of i])
  next
    case True
    then have n: "nat (steps - i) = Suc (nat (steps - (i + 1)))"
      by simp
    from True have "headphone_clk_loop i steps s =
        headphone_clk_loop (i + 1) steps
          (gpiod_set_value Headphone_clk 0 (gpiod_set_value Headphone_clk 1 s))"
      by (simp add: headphone_clk_loop.simps [of i])
    also note "1.IH" [OF True]
    finally show ?thesis
      by (simp add: n gpiod_set_value_def)
  qed
qed

lemma set_headphone_volume_eq:
  "set_headphone_volume new_volume s =
     (if initialized s then
        s\<lparr>gpio_writes := gpio_writes s
             @ (Headphone_dir, if new_volume > headphone_volume s then 1 else 0)
             # concat (replicate (nat (c_abs (s32 (new_volume - headphone_volume s))))
                 [(Headphone_clk, 1), (Headphone_clk, 0)]),
          headphone_volume := new_volume\<rparr>
      else s\<lparr>headphone_volume := new_volume\<rparr>)"
  by (simp add: set_headphone_volume_def Let_def headphone_clk_loop_eq gpiod_set_value_def)

text \<open>
  Claim C3. With the pins initialised and both the current and the target volume between
  0 and 15, \<^verbatim>\<open>set_headphone_volume\<close> first writes the direction pin once, 1 when the
  target is above the current volume and 0 otherwise, and then issues exactly
  \<open>\<bar>target - current\<bar>\<close> clock pulses, each one the clock pin driven to 1 and then to
  0, one pulse after the other and with no further write to the direction pin among them.
  Afterwards the stored volume, which is what the control reads back, is the target.
\<close>

theorem set_headphone_volume_pulses:
  assumes "initialized s"
    and "0 \<le> headphone_volume s" and "headphone_volume s \<le> 15"
    and "0 \<le> target" and "target \<le> 15"
  shows "gpio_writes (set_headphone_volume target s) =
       gpio_writes s
         @ (Headphone_dir, if target > headphone_volume s then 1 else 0)
         # concat (replicate (nat \<bar>target - headphone_volume s\<bar>)
             [(Headphone_clk, 1), (Headphone_clk, 0)])
     \<and> headphone_volume (set_headphone_volume target s) = target
     \<and> headphone_get (set_headphone_volume target s) = target"
proof -
  from assms have d: "- (2 ^ 31) < target - headphone_volume s"
    "target - headphone_volume s < 2 ^ 31"
    by simp_all
  then have "s32 (target - headphone_volume s) = target - headphone_volume s"
    by (simp add: s32_id)
  with d have "c_abs (s32 (target - headphone_volume s)) = \<bar>target - headphone_volume s\<bar>"
    by (simp add: c_abs_small)
  with assms(1) show ?thesis
    by (simp add: set_headphone_volume_eq headphone_get_def)
qed

theorem set_headphone_volume_pulses_witness:
  "gpio_writes (set_headphone_volume 11 (module_globals\<lparr>headphone_volume := 7, initialized := True\<rparr>))
     = [(Headphone_dir, 1),
        (Headphone_clk, 1), (Headphone_clk, 0), (Headphone_clk, 1), (Headphone_clk, 0),
        (Headphone_clk, 1), (Headphone_clk, 0), (Headphone_clk, 1), (Headphone_clk, 0)]
   \<and> headphone_volume
       (set_headphone_volume 11 (module_globals\<lparr>headphone_volume := 7, initialized := True\<rparr>))
     = 11
   \<and> gpio_writes (set_headphone_volume 5 (module_globals\<lparr>headphone_volume := 7, initialized := True\<rparr>))
     = [(Headphone_dir, 0),
        (Headphone_clk, 1), (Headphone_clk, 0), (Headphone_clk, 1), (Headphone_clk, 0)]"
proof -
  have four: "replicate 4 x = [x, x, x, x]" and two: "replicate 2 x = [x, x]" for x :: "'a"
    by (simp_all add: eval_nat_numeral)
  show ?thesis
    using set_headphone_volume_pulses
            [of "module_globals\<lparr>headphone_volume := 7, initialized := True\<rparr>" 11]
          set_headphone_volume_pulses
            [of "module_globals\<lparr>headphone_volume := 7, initialized := True\<rparr>" 5]
    by (simp add: module_globals_def four two)
qed

text \<open>
  Claim C4 says that a call whose target equals the current volume leaves the direction
  pin untouched. With the pins initialised the function writes the direction pin before
  it looks at the number of steps: at volume 7, \<^verbatim>\<open>set_headphone_volume(7)\<close> issues one
  pin write, the direction pin driven to 0.
\<close>

theorem set_headphone_volume_same_counterexample:
  "gpio_writes
     (set_headphone_volume 7
        (module_globals\<lparr>headphone_volume := 7, initialized := True, gpio_writes := []\<rparr>))
   = [(Headphone_dir, 0)]"
  by (simp add: set_headphone_volume_eq module_globals_def c_abs_def s32_def)

text \<open>
  Claim C4, amended. When the target equals the current volume, \<^verbatim>\<open>set_headphone_volume\<close>
  issues no clock pulse; with the pins initialised it still writes the direction pin
  once, to 0, and with the pins not initialised it writes no pin. Nothing else changes.
  The control handler \<^verbatim>\<open>headphone_put\<close> does not call the function for an unchanged
  value, so through it no pin is written at all.
\<close>

theorem set_headphone_volume_same:
  "headphone_volume s = target \<Longrightarrow>
     set_headphone_volume target s =
       (if initialized s then s\<lparr>gpio_writes := gpio_writes s @ [(Headphone_dir, 0)]\<rparr> else s)
     \<and> headphone_put target s = (0, s)"
  by (simp add: set_headphone_volume_eq c_abs_def s32_def headphone_put_def)

theorem set_headphone_volume_same_witness:
  "set_headphone_volume 7 (module_globals\<lparr>headphone_volume := 7, initialized := True\<rparr>)
     = module_globals\<lparr>headphone_volume := 7, initialized := True,
         gpio_writes := [(Headphone_dir, 0)]\<rparr>
   \<and> set_headphone_volume 7 (module_globals\<lparr>headphone_volume := 7\<rparr>)
     = module_globals\<lparr>headphone_volume := 7\<rparr>
   \<and> headphone_put 7 (module_globals\<lparr>headphone_volume := 7, initialized := True\<rparr>)
     = (0, module_globals\<lparr>headphone_volume := 7, initialized := True\<rparr>)"
  using set_headphone_volume_same
          [of "module_globals\<lparr>headphone_volume := 7, initialized := True\<rparr>" 7]
        set_headphone_volume_same [of "module_globals\<lparr>headphone_volume := 7\<rparr>" 7]
  by (simp add: module_globals_def)

subsection \<open>Gain stage, bypass and mode switches\<close>

lemma set_gain_stage_eq:
  "set_gain_stage channel state s =
     (if channel = CHANNEL_LEFT then
        (if initialized s \<and> 0 \<le> state \<and> state \<le> 3 then
           s\<lparr>input_left_gain_stage := state,
             gpio_writes := gpio_writes s
               @ [(Gain_stage_left1, if state = 0 \<or> state = 1 then 1 else 0),
                  (Gain_stage_left2, if state = 0 \<or> state = 2 then 1 else 0)]\<rparr>
         else s\<lparr>input_left_gain_stage := state\<rparr>)
      else if channel = CHANNEL_RIGHT then
        (if initialized s \<and> 0 \<le> state \<and> state \<le> 3 then
           s\<lparr>input_right_gain_stage := state,
             gpio_writes := gpio_writes s
               @ [(Gain_stage_right1, if state = 0 \<or> state = 1 then 1 else 0),
                  (Gain_stage_right2, if state = 0 \<or> state = 2 then 1 else 0)]\<rparr>
         else s\<lparr>input_right_gain_stage := state\<rparr>)
      else s)"
proof -
  have cases: "state = 0 \<or> state = 1 \<or> state = 2 \<or> state = 3" if "0 \<le> state" "state \<le> 3"
    using that by arith
  show ?thesis
  proof (cases "0 \<le> state \<and> state \<le> 3")
    case True
    with cases have "state = 0 \<or> state = 1 \<or> state = 2 \<or> state = 3" by blast
    then show ?thesis
      by (auto simp: set_gain_stage_def gpiod_set_value_def)
  next
    case False
    then have "state \<noteq> 0" "state \<noteq> 1" "state \<noteq> 2" "state \<noteq> 3"
      by auto
    with False show ?thesis
      by (auto simp: set_gain_stage_def gpiod_set_value_def)
  qed
qed

lemma set_true_bypass_eq:
  "set_true_bypass channel state s =
     (if channel = CHANNEL_LEFT then
        (if initialized s then
           s\<lparr>gpio_writes := gpio_writes s @ [(True_bypass_left, if state then 0 else 1)],
             left_true_bypass := state\<rparr>
         else s\<lparr>left_true_bypass := state\<rparr>)
      else if channel = CHANNEL_RIGHT then
        (if initialized s then
           s\<lparr>gpio_writes := gpio_writes s @ [(True_bypass_right, if state then 0 else 1)],
             right_true_bypass := state\<rparr>
         else s\<lparr>right_true_bypass := state\<rparr>)
      else s)"
  by (simp add: set_true_bypass_def gpiod_set_value_def GPIO_BYPASS_def GPIO_PROCESS_def)

lemma set_headphone_cv_mode_eq:
  "set_headphone_cv_mode mode s =
     (if mode = 0 \<or> mode = 1 then
        (if initialized s then
           s\<lparr>gpio_writes := gpio_writes s @ [(Headphone_cv_mode, mode)],
             headphone_cv_mode := (mode \<noteq> 0)\<rparr>
         else s\<lparr>headphone_cv_mode := (mode \<noteq> 0)\<rparr>)
      else s)"
  by (simp add: set_headphone_cv_mode_def gpiod_set_value_def)

lemma set_exp_pedal_mode_eq:
  "set_exp_pedal_mode mode s =
     (if mode = 0 \<or> mode = 1 then
        (if cv_exp_pedal_mode s \<and> initialized s \<and> 0 < irqFlag1 s \<and> 0 < irqFlag2 s then
           s\<lparr>gpio_writes := gpio_writes s
                @ (if mode = 0 then [(Exp_enable1, 0), (Exp_enable2, 1)]
                   else [(Exp_enable2, 0), (Exp_enable1, 1)]),
             exp_pedal_mode := (mode \<noteq> 0)\<rparr>
         else s\<lparr>exp_pedal_mode := (mode \<noteq> 0)\<rparr>)
      else s)"
  by (auto simp: set_exp_pedal_mode_def gpiod_set_value_def int_of_bool_def
      EXP_PEDAL_SIGNAL_ON_TIP_def)

lemma set_cv_exp_pedal_mode_eq:
  "set_cv_exp_pedal_mode mode s =
     (if mode = 0 then
        (if initialized s then
           s\<lparr>cv_exp_pedal_mode := False,
             gpio_writes := gpio_writes s @ [(Exp_enable1, 0), (Exp_enable2, 0)]\<rparr>
         else s\<lparr>cv_exp_pedal_mode := False\<rparr>)
      else if mode = 1 then
        (if initialized s \<and> 0 < irqFlag1 s \<and> 0 < irqFlag2 s then
           s\<lparr>cv_exp_pedal_mode := True,
             gpio_writes := gpio_writes s
                @ (if exp_pedal_mode s then [(Exp_enable2, 0), (Exp_enable1, 1)]
                   else [(Exp_enable1, 0), (Exp_enable2, 1)])\<rparr>
         else s\<lparr>cv_exp_pedal_mode := True\<rparr>)
      else s)"
  by (auto simp: set_cv_exp_pedal_mode_def set_exp_pedal_mode_eq gpiod_set_value_def
      int_of_bool_def Let_def)

text \<open>
  Claim C6. When the pin set is not initialised, every setter still stores the value it
  is given, so the control's getter returns the newly set value, and issues no pin write:
  the headphone volume, the gain stage of either channel, the bypass of either channel,
  and the three mode setters (headphone/CV, signal side, CV/expression pedal). The mode
  setters and the bypass take a boolean, which the getters return as 0 or 1.
\<close>

theorem setters_uninitialized:
  assumes "\<not> initialized s"
  shows "headphone_get (set_headphone_volume v s) = v
       \<and> gpio_writes (set_headphone_volume v s) = gpio_writes s
       \<and> input_left_gain_stage_get (set_gain_stage CHANNEL_LEFT v s) = v
       \<and> gpio_writes (set_gain_stage CHANNEL_LEFT v s) = gpio_writes s
       \<and> input_right_gain_stage_get (set_gain_stage CHANNEL_RIGHT v s) = v
       \<and> gpio_writes (set_gain_stage CHANNEL_RIGHT v s) = gpio_writes s
       \<and> left_true_bypass_get (set_true_bypass CHANNEL_LEFT b s) = int_of_bool b
       \<and> gpio_writes (set_true_bypass CHANNEL_LEFT b s) = gpio_writes s
       \<and> right_true_bypass_get (set_true_bypass CHANNEL_RIGHT b s) = int_of_bool b
       \<and> gpio_writes (set_true_bypass CHANNEL_RIGHT b s) = gpio_writes s
       \<and> headphone_cv_mode_get (set_headphone_cv_mode (int_of_bool b) s) = int_of_bool b
       \<and> gpio_writes (set_headphone_cv_mode (int_of_bool b) s) = gpio_writes s
       \<and> exp_pedal_mode_get (set_exp_pedal_mode (int_of_bool b) s) = int_of_bool b
       \<and> gpio_writes (set_exp_pedal_mode (int_of_bool b) s) = gpio_writes s
       \<and> cv_exp_pedal_mode_get (set_cv_exp_pedal_mode (int_of_bool b) s) = int_of_bool b
       \<and> gpio_writes (set_cv_exp_pedal_mode (int_of_bool b) s) = gpio_writes s"
proof -
  from assms have volume: "headphone_get (set_headphone_volume v s) = v
       \<and> gpio_writes (set_headphone_volume v s) = gpio_writes s"
    by (simp add: set_headphone_volume_eq headphone_get_def)
  from assms have left_gain: "input_left_gain_stage_get (set_gain_stage CHANNEL_LEFT v s) = v
       \<and> gpio_writes (set_gain_stage CHANNEL_LEFT v s) = gpio_writes s"
    by (simp add: set_gain_stage_eq input_left_gain_stage_get_def)
  from assms have right_gain: "input_right_gain_stage_get (set_gain_stage CHANNEL_RIGHT v s) = v
       \<and> gpio_writes (set_gain_stage CHANNEL_RIGHT v s) = gpio_writes s"
    by (simp add: set_gain_stage_eq input_right_gain_stage_get_def CHANNEL_LEFT_def
        CHANNEL_RIGHT_def)
  from assms have left_bypass:
    "left_true_bypass_get (set_true_bypass CHANNEL_LEFT b s) = int_of_bool b
       \<and> gpio_writes (set_true_bypass CHANNEL_LEFT b s) = gpio_writes s"
    by (simp add: set_true_bypass_eq left_true_bypass_get_def)
  from assms have right_bypass:
    "right_true_bypass_get (set_true_bypass CHANNEL_RIGHT b s) = int_of_bool b
       \<and> gpio_writes (set_true_bypass CHANNEL_RIGHT b s) = gpio_writes s"
    by (simp add: set_true_bypass_eq right_true_bypass_get_def CHANNEL_LEFT_def
        CHANNEL_RIGHT_def)
  from assms have hp_cv:
    "headphone_cv_mode_get (set_headphone_cv_mode (int_of_bool b) s) = int_of_bool b
       \<and> gpio_writes (set_headphone_cv_mode (int_of_bool b) s) = gpio_writes s"
    by (simp add: set_headphone_cv_mode_eq headphone_cv_mode_get_def int_of_bool_def)
  from assms have side:
    "exp_pedal_mode_get (set_exp_pedal_mode (int_of_bool b) s) = int_of_bool b
       \<and> gpio_writes (set_exp_pedal_mode (int_of_bool b) s) = gpio_writes s"
    by (simp add: set_exp_pedal_mode_eq exp_pedal_mode_get_def int_of_bool_def)
  from assms have cv_exp:
    "cv_exp_pedal_mode_get (set_cv_exp_pedal_mode (int_of_bool b) s) = int_of_bool b
       \<and> gpio_writes (set_cv_exp_pedal_mode (int_of_bool b) s) = gpio_writes s"
    by (simp add: set_cv_exp_pedal_mode_eq cv_exp_pedal_mode_get_def int_of_bool_def)
  from volume left_gain right_gain left_bypass right_bypass hp_cv side cv_exp
  show ?thesis by blast
qed

theorem setters_uninitialized_witness:
  "headphone_get (set_headphone_volume 9 module_globals) = 9
   \<and> gpio_writes (set_headphone_volume 9 module_globals) = []
   \<and> input_left_gain_stage_get (set_gain_stage CHANNEL_LEFT 2 module_globals) = 2
   \<and> gpio_writes (set_gain_stage CHANNEL_LEFT 2 module_globals) = []
   \<and> left_true_bypass_get (set_true_bypass CHANNEL_LEFT False module_globals) = 0
   \<and> gpio_writes (set_true_bypass CHANNEL_LEFT False module_globals) = []
   \<and> cv_exp_pedal_mode_get (set_cv_exp_pedal_mode 1 module_globals) = 1
   \<and> gpio_writes (set_cv_exp_pedal_mode 1 module_globals) = []"
proof -
  have uninit: "\<not> initialized module_globals" and log: "gpio_writes module_globals = []"
    by (simp_all add: module_globals_def)
  have one: "int_of_bool True = 1" and zero: "int_of_bool False = 0"
    by (simp_all add: int_of_bool_def)
  from setters_uninitialized [OF uninit, of 9 False] setters_uninitialized [OF uninit, of 2 True]
  show ?thesis
    by (simp only: log one zero simp_thms)
qed

text \<open>
  Claim C7. With the pins initialised, for either channel and every level from 0 to 3,
  \<^verbatim>\<open>set_gain_stage\<close> issues exactly the two pin writes of the specification's table, on
  the channel's first and second gain pin in that order: level 0 gives (1,1), level 1
  (1,0), level 2 (0,1) and level 3 (0,0). The writes depend on the channel and the level
  only, not on the state before, and a second identical call issues the same two writes
  again.
\<close>

theorem set_gain_stage_pattern:
  assumes "initialized s"
    and "channel = CHANNEL_LEFT \<or> channel = CHANNEL_RIGHT"
    and "0 \<le> level" and "level \<le> 3"
  shows "gpio_writes (set_gain_stage channel level s)
           = gpio_writes s @ spec_gain_stage_writes channel level
       \<and> gpio_writes (set_gain_stage channel level (set_gain_stage channel level s))
           = gpio_writes s @ spec_gain_stage_writes channel level
               @ spec_gain_stage_writes channel level"
proof -
  from assms(3,4) have "level = 0 \<or> level = 1 \<or> level = 2 \<or> level = 3"
    by arith
  with assms(1,2) show ?thesis
    by (auto simp: set_gain_stage_eq spec_gain_stage_writes_def spec_gain_stage_pins_def
        spec_gain_stage_pattern_def CHANNEL_LEFT_def CHANNEL_RIGHT_def)
qed

theorem set_gain_stage_pattern_witness:
  "gpio_writes (set_gain_stage CHANNEL_LEFT 2 (module_globals\<lparr>initialized := True\<rparr>))
     = [(Gain_stage_left1, 0), (Gain_stage_left2, 1)]
   \<and> gpio_writes (set_gain_stage CHANNEL_LEFT 2
        (set_gain_stage CHANNEL_LEFT 2 (module_globals\<lparr>initialized := True\<rparr>)))
     = [(Gain_stage_left1, 0), (Gain_stage_left2, 1),
        (Gain_stage_left1, 0), (Gain_stage_left2, 1)]
   \<and> gpio_writes (set_gain_stage CHANNEL_RIGHT 1 (module_globals\<lparr>initialized := True\<rparr>))
     = [(Gain_stage_right1, 1), (Gain_stage_right2, 0)]"
  using set_gain_stage_pattern [of "module_globals\<lparr>initialized := True\<rparr>" CHANNEL_LEFT 2]
        set_gain_stage_pattern [of "module_globals\<lparr>initialized := True\<rparr>" CHANNEL_RIGHT 1]
  by (simp add: module_globals_def spec_gain_stage_writes_def spec_gain_stage_pins_def
      spec_gain_stage_pattern_def CHANNEL_LEFT_def CHANNEL_RIGHT_def)

text \<open>
  Claim C8 says that \<^verbatim>\<open>set_true_bypass\<close> drives the bypass pin of the channel for every
  call. The write is behind the \<open>initialized\<close> gate: in the state the module is loaded
  with, where the pins are not initialised, engaging the bypass of the left channel
  issues no pin write.
\<close>

theorem set_true_bypass_uninitialized_counterexample:
  "gpio_writes module_globals = []
   \<and> gpio_writes (set_true_bypass CHANNEL_LEFT True module_globals) = []"
  by (simp add: set_true_bypass_eq module_globals_def)

text \<open>
  Claim C8, amended. With the pins initialised, for either channel,
  \<^verbatim>\<open>set_true_bypass(channel, true)\<close> drives the bypass pin of the channel to
  \<^verbatim>\<open>GPIO_BYPASS\<close>, which is 0, and \<^verbatim>\<open>set_true_bypass(channel, false)\<close> drives it to
  \<^verbatim>\<open>GPIO_PROCESS\<close>, which is 1; the stored value is the boolean as given, not inverted.
\<close>

theorem set_true_bypass_inverted:
  assumes "initialized s"
  shows "gpio_writes (set_true_bypass CHANNEL_LEFT state s)
           = gpio_writes s @ [(True_bypass_left, if state then GPIO_BYPASS else GPIO_PROCESS)]
       \<and> gpio_writes (set_true_bypass CHANNEL_RIGHT state s)
           = gpio_writes s @ [(True_bypass_right, if state then GPIO_BYPASS else GPIO_PROCESS)]
       \<and> GPIO_BYPASS = 0 \<and> GPIO_PROCESS = 1
       \<and> left_true_bypass (set_true_bypass CHANNEL_LEFT state s) = state
       \<and> right_true_bypass (set_true_bypass CHANNEL_RIGHT state s) = state"
  using assms
  by (simp add: set_true_bypass_eq GPIO_BYPASS_def GPIO_PROCESS_def CHANNEL_LEFT_def
      CHANNEL_RIGHT_def)

theorem set_true_bypass_inverted_witness:
  "gpio_writes (set_true_bypass CHANNEL_LEFT True (module_globals\<lparr>initialized := True\<rparr>))
     = [(True_bypass_left, 0)]
   \<and> gpio_writes (set_true_bypass CHANNEL_RIGHT False (module_globals\<lparr>initialized := True\<rparr>))
     = [(True_bypass_right, 1)]
   \<and> left_true_bypass (set_true_bypass CHANNEL_LEFT True (module_globals\<lparr>initialized := True\<rparr>))
   \<and> \<not> right_true_bypass
         (set_true_bypass CHANNEL_RIGHT False (module_globals\<lparr>initialized := True\<rparr>))"
  using set_true_bypass_inverted [of "module_globals\<lparr>initialized := True\<rparr>" True]
        set_true_bypass_inverted [of "module_globals\<lparr>initialized := True\<rparr>" False]
  by (simp add: module_globals_def)

text \<open>
  Claim C9 says that in expression-pedal mode the call asserts exactly one of the two
  enable lines. The writes are behind two more gates, \<open>initialized\<close> and the two stored
  interrupt numbers: in expression-pedal mode with the pins initialised but no
  interrupt number stored (both are 0), selecting the ring side issues no pin write.
\<close>

theorem set_exp_pedal_mode_irq_counterexample:
  "cv_exp_pedal_mode (module_globals\<lparr>cv_exp_pedal_mode := True, initialized := True\<rparr>)
   \<and> gpio_writes (module_globals\<lparr>cv_exp_pedal_mode := True, initialized := True\<rparr>) = []
   \<and> gpio_writes
       (set_exp_pedal_mode (int_of_bool EXP_PEDAL_SIGNAL_ON_RING)
          (module_globals\<lparr>cv_exp_pedal_mode := True, initialized := True\<rparr>)) = []"
  by (simp add: set_exp_pedal_mode_eq module_globals_def int_of_bool_def
      EXP_PEDAL_SIGNAL_ON_RING_def)

text \<open>
  Claim C9, amended. \<^verbatim>\<open>set_exp_pedal_mode\<close> with the tip or the ring side writes pins
  only while the system is in expression-pedal mode with the pins initialised and both
  stored interrupt numbers positive; it then deasserts one enable line and asserts the
  other, enable2 for tip and enable1 for ring. In every other case, CV mode among them,
  it writes no pin. In every case the remembered side ends equal to the requested side
  and the CV/expression-pedal mode is left as it was.
\<close>

theorem set_exp_pedal_mode_effect:
  "gpio_writes (set_exp_pedal_mode (int_of_bool side) s)
     = gpio_writes s
         @ (if cv_exp_pedal_mode s \<and> initialized s \<and> 0 < irqFlag1 s \<and> 0 < irqFlag2 s then
              (if side = EXP_PEDAL_SIGNAL_ON_TIP then [(Exp_enable1, 0), (Exp_enable2, 1)]
               else [(Exp_enable2, 0), (Exp_enable1, 1)])
            else [])
   \<and> exp_pedal_mode (set_exp_pedal_mode (int_of_bool side) s) = side
   \<and> cv_exp_pedal_mode (set_exp_pedal_mode (int_of_bool side) s) = cv_exp_pedal_mode s"
  by (simp add: set_exp_pedal_mode_eq int_of_bool_def EXP_PEDAL_SIGNAL_ON_TIP_def)

theorem set_exp_pedal_mode_effect_witness:
  "gpio_writes
     (set_exp_pedal_mode (int_of_bool EXP_PEDAL_SIGNAL_ON_TIP)
        (module_globals\<lparr>cv_exp_pedal_mode := True, initialized := True,
           irqFlag1 := 51, irqFlag2 := 52\<rparr>))
     = [(Exp_enable1, 0), (Exp_enable2, 1)]
   \<and> gpio_writes
     (set_exp_pedal_mode (int_of_bool EXP_PEDAL_SIGNAL_ON_RING)
        (module_globals\<lparr>cv_exp_pedal_mode := True, initialized := True,
           irqFlag1 := 51, irqFlag2 := 52\<rparr>))
     = [(Exp_enable2, 0), (Exp_enable1, 1)]
   \<and> gpio_writes
     (set_exp_pedal_mode (int_of_bool EXP_PEDAL_SIGNAL_ON_RING)
        (module_globals\<lparr>initialized := True, irqFlag1 := 51, irqFlag2 := 52\<rparr>))
     = []
   \<and> exp_pedal_mode
     (set_exp_pedal_mode (int_of_bool EXP_PEDAL_SIGNAL_ON_RING)
        (module_globals\<lparr>initialized := True, irqFlag1 := 51, irqFlag2 := 52\<rparr>))
     = EXP_PEDAL_SIGNAL_ON_RING"
  using set_exp_pedal_mode_effect
          [of EXP_PEDAL_SIGNAL_ON_TIP
              "module_globals\<lparr>cv_exp_pedal_mode := True, initialized := True,
                 irqFlag1 := 51, irqFlag2 := 52\<rparr>"]
        set_exp_pedal_mode_effect
          [of EXP_PEDAL_SIGNAL_ON_RING
              "module_globals\<lparr>cv_exp_pedal_mode := True, initialized := True,
                 irqFlag1 := 51, irqFlag2 := 52\<rparr>"]
        set_exp_pedal_mode_effect
          [of EXP_PEDAL_SIGNAL_ON_RING
              "module_globals\<lparr>initialized := True, irqFlag1 := 51, irqFlag2 := 52\<rparr>"]
  by (simp add: module_globals_def EXP_PEDAL_SIGNAL_ON_TIP_def EXP_PEDAL_SIGNAL_ON_RING_def)

text \<open>
  Claim C10. When \<^verbatim>\<open>set_gain_stage\<close> is called for the left or the right channel with a
  level outside 0 to 3, the level is stored all the same, so the channel's getter then
  returns a value outside the range that \<^verbatim>\<open>input_gain_stage_info\<close> declares, and no pin
  is written.
\<close>

theorem set_gain_stage_out_of_range:
  assumes "level < 0 \<or> 3 < level"
  shows "input_left_gain_stage_get (set_gain_stage CHANNEL_LEFT level s) = level
       \<and> gpio_writes (set_gain_stage CHANNEL_LEFT level s) = gpio_writes s
       \<and> input_right_gain_stage_get (set_gain_stage CHANNEL_RIGHT level s) = level
       \<and> gpio_writes (set_gain_stage CHANNEL_RIGHT level s) = gpio_writes s
       \<and> \<not> (integer_min input_gain_stage_info
                \<le> input_left_gain_stage_get (set_gain_stage CHANNEL_LEFT level s)
              \<and> input_left_gain_stage_get (set_gain_stage CHANNEL_LEFT level s)
                \<le> integer_max input_gain_stage_info)
       \<and> \<not> (integer_min input_gain_stage_info
                \<le> input_right_gain_stage_get (set_gain_stage CHANNEL_RIGHT level s)
              \<and> input_right_gain_stage_get (set_gain_stage CHANNEL_RIGHT level s)
                \<le> integer_max input_gain_stage_info)"
  using assms
  by (auto simp: set_gain_stage_eq input_left_gain_stage_get_def
      input_right_gain_stage_get_def input_gain_stage_info_def CHANNEL_LEFT_def
      CHANNEL_RIGHT_def)

theorem set_gain_stage_out_of_range_witness:
  "input_left_gain_stage_get
       (set_gain_stage CHANNEL_LEFT 7 (module_globals\<lparr>initialized := True\<rparr>)) = 7
   \<and> gpio_writes (set_gain_stage CHANNEL_LEFT 7 (module_globals\<lparr>initialized := True\<rparr>)) = []
   \<and> integer_max input_gain_stage_info
        < input_left_gain_stage_get
            (set_gain_stage CHANNEL_LEFT 7 (module_globals\<lparr>initialized := True\<rparr>))"
  using set_gain_stage_out_of_range [of 7 "module_globals\<lparr>initialized := True\<rparr>"]
  by (simp add: module_globals_def input_gain_stage_info_def)

subsection \<open>Initialisation and interrupts\<close>

lemma control_call_frame:
  "initialized (control_call c s) = initialized s
   \<and> irq_actions (control_call c s) = irq_actions s"
  by (cases c)
    (simp_all add: set_headphone_volume_eq set_gain_stage_eq set_true_bypass_eq
      set_headphone_cv_mode_eq set_exp_pedal_mode_eq set_cv_exp_pedal_mode_eq)

lemma exp_flag_irq_handler_eq:
  "exp_flag_irq_handler irq s =
     (if initialized s then
        s\<lparr>cv_exp_pedal_mode := False,
          gpio_writes := gpio_writes s @ [(Exp_enable1, 0), (Exp_enable2, 0)]\<rparr>
      else s\<lparr>cv_exp_pedal_mode := False\<rparr>)"
  by (simp add: exp_flag_irq_handler_def set_cv_exp_pedal_mode_eq)

lemma fire_frame:
  "fire e s = Some s' \<Longrightarrow>
     initialized s' = initialized s \<and> irq_actions s' = irq_actions s"
  by (cases e) (auto simp: control_call_frame exp_flag_irq_handler_eq split: if_splits)

lemma run_frame:
  "run es s = Some s' \<Longrightarrow>
     initialized s' = initialized s \<and> irq_actions s' = irq_actions s"
proof (induction es arbitrary: s)
  case Nil
  then show ?case by simp
next
  case (Cons e es)
  from Cons.prems obtain s1 where s1: "fire e s = Some s1" "run es s1 = Some s'"
    by (auto split: option.splits)
  from fire_frame [OF s1(1)] Cons.IH [OF s1(2)] show ?case
    by simp
qed

lemma moddevices_init_irq_actions:
  assumes "moddevices_init env g = Inr s0" and "irq_actions g = []"
  shows "irq_actions s0 \<noteq> [] \<longrightarrow> initialized s0"
  using assms
  by (auto simp: moddevices_init_def Let_def request_irq_def headphone_clk_loop_eq
      gpiod_set_value_def split: if_splits)

text \<open>
  Claim C5. Whenever the sense-line interrupt fires, in any state the driver can be in
  after \<^verbatim>\<open>moddevices_init\<close> and any sequence of control writes and earlier interrupts,
  the handler leaves the system in CV mode whatever the mode and the selected side were:
  \<open>cv_exp_pedal_mode\<close> is false afterwards and both enable lines have been driven to 0,
  enable1 first. The interrupt can fire only on a line where \<^verbatim>\<open>request_irq\<close> installed
  the handler, which \<^verbatim>\<open>moddevices_init\<close> does only after it has set \<open>initialized\<close>, and
  nothing clears \<open>initialized\<close> later.
\<close>

theorem irq_forces_cv_mode:
  assumes "moddevices_init env module_globals = Inr s0"
    and "run evs s0 = Some s"
    and "irq \<in> set (irq_actions s)"
  shows "cv_exp_pedal_mode (exp_flag_irq_handler irq s) = False
       \<and> gpio_writes (exp_flag_irq_handler irq s)
           = gpio_writes s @ [(Exp_enable1, 0), (Exp_enable2, 0)]
       \<and> fire (Irq irq) s = Some (exp_flag_irq_handler irq s)"
proof -
  have "irq_actions module_globals = []"
    by (simp add: module_globals_def)
  with assms(1) have "irq_actions s0 \<noteq> [] \<longrightarrow> initialized s0"
    by (rule moddevices_init_irq_actions)
  moreover from run_frame [OF assms(2)]
  have "initialized s = initialized s0" "irq_actions s = irq_actions s0"
    by simp_all
  moreover from assms(3) have "irq_actions s \<noteq> []"
    by auto
  ultimately have "initialized s"
    by simp
  with assms(3) show ?thesis
    by (simp add: exp_flag_irq_handler_eq)
qed

theorem irq_forces_cv_mode_witness:
  "\<exists>s0 s.
     moddevices_init
       \<lparr>kzalloc_ok = True, devm_gpiod_get = (\<lambda>g. Desc),
        gpiod_to_irq = (\<lambda>g. if g = Exp_flag1 then 51 else 52),
        request_irq_ret = (\<lambda>n. 0)\<rparr> module_globals = Inr s0
     \<and> run [Call (Set_cv_exp_pedal_mode 1), Call (Set_exp_pedal_mode 1)] s0 = Some s
     \<and> 51 \<in> set (irq_actions s)
     \<and> cv_exp_pedal_mode s \<and> exp_pedal_mode s
     \<and> \<not> cv_exp_pedal_mode (exp_flag_irq_handler 51 s)
     \<and> gpio_writes (exp_flag_irq_handler 51 s)
         = gpio_writes s @ [(Exp_enable1, 0), (Exp_enable2, 0)]"
proof -
  obtain s0 where init:
    "moddevices_init
       \<lparr>kzalloc_ok = True, devm_gpiod_get = (\<lambda>g. Desc),
        gpiod_to_irq = (\<lambda>g. if g = Exp_flag1 then 51 else 52),
        request_irq_ret = (\<lambda>n. 0)\<rparr> module_globals = Inr s0"
    and lines: "irq_actions s0 = [51, 52]"
    by (simp add: moddevices_init_def Let_def request_irq_def headphone_clk_loop_eq
        gpiod_set_value_def module_globals_def IS_ERR_def)
  obtain s where run: "run [Call (Set_cv_exp_pedal_mode 1), Call (Set_exp_pedal_mode 1)] s0 = Some s"
    and mode: "cv_exp_pedal_mode s" "exp_pedal_mode s"
    by (simp add: set_cv_exp_pedal_mode_eq set_exp_pedal_mode_eq)
  from run_frame [OF run] lines have irq: "51 \<in> set (irq_actions s)"
    by simp
  from irq_forces_cv_mode [OF init run irq] init run irq mode show ?thesis
    by blast
qed

end
